theory Spec2Isabelle
  imports Main
begin

section \<open>Data model of the post controller\<close>

text \<open>
  The controller \<^verbatim>\<open>src/backend/controllers/post.controller.js\<close> is a set of
  asynchronous request handlers over a document database (posts, notifications, users),
  an asset store, a sentiment service and an e-mail sender. Each handler is modelled as
  a function from the outcomes of the awaited calls (\<open>env\<close>), the request and the state
  of the stores to the new state and the response. An exception of the source is a value
  \<open>Inl e\<close>; state written before the exception stays written, as there is no rollback
  in the source.
\<close>

type_synonym oid = string

text \<open>
  The few JavaScript values whose dynamic behaviour the handlers depend on: truthiness of
  an optional string, the value of a block-bodied arrow function without \<^verbatim>\<open>return\<close>,
  and \<^verbatim>\<open>!==\<close> between values of different types.
\<close>

datatype jsval = JUndefined | JBoolean bool | JString string | JFunction

fun truthy :: "jsval \<Rightarrow> bool" where
  "truthy JUndefined = False"
| "truthy (JBoolean b) = b"
| "truthy (JString s) = (s \<noteq> [])"
| "truthy JFunction = True"

definition strict_neq :: "jsval \<Rightarrow> jsval \<Rightarrow> bool" where
  "strict_neq a b = (a \<noteq> b)"

definition js_of_opt :: "string option \<Rightarrow> jsval" where
  "js_of_opt v = (case v of None \<Rightarrow> JUndefined | Some s \<Rightarrow> JString s)"

datatype exn = TypeError | ReferenceError | DbError | UpstreamError

record user =
  u_id :: oid
  name :: "string option"
  username :: "string option"
  email :: "string option"
  profilePicture :: "string option"
  headline :: "string option"

record 'c comment =
  user :: 'c
  c_content :: string

text \<open>
  A post document. The author path holds an \<open>oid\<close> in the stored document and the
  referenced user document, or null, once populated; likewise the user path of each
  comment.
\<close>

record ('a, 'c) post =
  p_id :: oid
  author :: 'a
  content :: string
  image' :: "string option"
  sentiment :: "string option"
  likes :: "oid list"
  comments :: "'c comment list"
  createdAt :: int

type_synonym stored_post = "(oid, oid) post"

datatype ntype = Comment | Like

record notification =
  recipient :: oid
  ntype :: ntype
  relatedUser :: oid
  relatedPost :: oid

record mail =
  m_to :: "string option"
  m_toName :: "string option"
  m_fromName :: string
  m_postUrl :: string
  m_text :: string

record state =
  users :: "user list"
  posts :: "stored_post list"
  notifications :: "notification list"
  assets :: "string list"
  outbox :: "mail list"
  console :: "string list"

text \<open>
  The request as the handlers read it: \<^verbatim>\<open>req.user\<close> (set by the session layer),
  \<^verbatim>\<open>req.params.id\<close> and \<^verbatim>\<open>req.body\<close>.
\<close>

record request =
  actor :: oid
  actor_name :: string
  connections :: "oid list"
  param_id :: oid
  body_content :: string
  body_image :: "string option"

text \<open>
  What the awaited calls of one request do: whether each database call resolves, whether
  the request to the sentiment service ever settles (\<^verbatim>\<open>axios.post\<close> is called
  without a timeout, so with a service that never answers its promise stays pending),
  the reply of the sentiment service once it settles (\<open>None\<close>: the promise rejects), the
  reply of the asset upload (\<open>None\<close>: it rejects, \<open>Some url\<close>: its \<^verbatim>\<open>secure_url\<close>),
  whether the asset deletion and the e-mail resolve, the identifier and timestamp
  assigned to a new post, and \<^verbatim>\<open>process.env.CLIENT_URL\<close>. A database call that is
  given a malformed identifier rejects, which is the case \<open>False\<close> of its flag.
\<close>

record env =
  find_ok :: bool
  update_ok :: bool
  remove_ok :: bool
  post_save_ok :: bool
  notification_save_ok :: bool
  sentiment_settles :: bool
  sentiment_reply :: "string option"
  upload_reply :: "string option"
  destroy_ok :: bool
  email_ok :: bool
  new_id :: oid
  now :: int
  client_url :: string

datatype body =
    JNull
  | JMsg string string
  | JPost stored_post
  | JPostAuthor "(user option, oid) post"
  | JPostFull "(user option, user option) post"
  | JList "(user option, user option) post list"

text \<open>
  \<open>Resp status body\<close> is \<^verbatim>\<open>res.status(status).json(body)\<close>; \<open>Unhandled e\<close> is a
  handler whose promise rejects with \<open>e\<close> without having sent a response; \<open>Pending\<close>
  is a handler that waits for ever on an awaited call: it sends no response and runs
  nothing that follows the call.
\<close>

datatype response = Resp nat body | Unhandled exn | Pending

section \<open>Database, asset store and mail operations\<close>

definition log :: "string \<Rightarrow> state \<Rightarrow> state" where
  "log line st = st\<lparr>console := console st @ [line]\<rparr>"

definition findById :: "env \<Rightarrow> oid \<Rightarrow> state \<Rightarrow> exn + stored_post option" where
  "findById env i st =
     (if find_ok env then Inr (find (\<lambda>p. p_id p = i) (posts st)) else Inl DbError)"

definition save_post :: "env \<Rightarrow> stored_post \<Rightarrow> state \<Rightarrow> state \<times> (exn + unit)" where
  "save_post env doc st =
     (if post_save_ok env
      then (st\<lparr>posts := map (\<lambda>p. if p_id p = p_id doc then doc else p) (posts st)\<rparr>, Inr ())
      else (st, Inl DbError))"

definition save_notification :: "env \<Rightarrow> notification \<Rightarrow> state \<Rightarrow> state \<times> (exn + unit)" where
  "save_notification env n st =
     (if notification_save_ok env
      then (st\<lparr>notifications := notifications st @ [n]\<rparr>, Inr ())
      else (st, Inl DbError))"

text \<open>
  \<^verbatim>\<open>newPost.save()\<close> of a document that is not stored yet. It also rejects when the
  schema's validation fails, which is part of \<open>post_save_ok\<close>.
\<close>

definition insert_post :: "env \<Rightarrow> stored_post \<Rightarrow> state \<Rightarrow> state \<times> (exn + unit)" where
  "insert_post env doc st =
     (if post_save_ok env
      then (st\<lparr>posts := posts st @ [doc]\<rparr>, Inr ())
      else (st, Inl DbError))"

text \<open>
  \<^verbatim>\<open>Post.findByIdAndUpdate(postId, {$push: {comments: c}}, {new: true})\<close>: null when no
  post has the identifier, else the updated document.
\<close>

definition findByIdAndUpdate_push ::
  "env \<Rightarrow> oid \<Rightarrow> oid comment \<Rightarrow> state \<Rightarrow> state \<times> (exn + stored_post option)" where
  "findByIdAndUpdate_push env i c st =
     (if update_ok env
      then
        (case find (\<lambda>p. p_id p = i) (posts st) of
           None \<Rightarrow> (st, Inr None)
         | Some doc \<Rightarrow>
             (let doc1 = doc\<lparr>comments := comments doc @ [c]\<rparr> in
              (st\<lparr>posts := map (\<lambda>p. if p_id p = i then doc1 else p) (posts st)\<rparr>,
               Inr (Some doc1))))
      else (st, Inl DbError))"

text \<open>Identifiers are unique in the collection, so deleting by identifier is a filter.\<close>

definition findByIdAndDelete :: "env \<Rightarrow> oid \<Rightarrow> state \<Rightarrow> state \<times> (exn + unit)" where
  "findByIdAndDelete env i st =
     (if remove_ok env
      then (st\<lparr>posts := filter (\<lambda>p. p_id p \<noteq> i) (posts st)\<rparr>, Inr ())
      else (st, Inl DbError))"

text \<open>\<^verbatim>\<open>Post.find(filter).sort({createdAt: -1})\<close>\<close>

definition find_posts :: "env \<Rightarrow> (stored_post \<Rightarrow> bool) \<Rightarrow> state \<Rightarrow> exn + stored_post list" where
  "find_posts env f st =
     (if find_ok env
      then Inr (sort_key (\<lambda>p. - createdAt p) (filter f (posts st)))
      else Inl DbError)"

text \<open>
  \<^verbatim>\<open>populate(path, fields)\<close> replaces a reference by the referenced user document
  restricted to \<^verbatim>\<open>_id\<close> and the selected fields, or by null when no user has the
  identifier.
\<close>

definition select :: "string list \<Rightarrow> user \<Rightarrow> user" where
  "select sel u =
     \<lparr>u_id = u_id u,
      name = (if ''name'' \<in> set sel then name u else None),
      username = (if ''username'' \<in> set sel then username u else None),
      email = (if ''email'' \<in> set sel then email u else None),
      profilePicture = (if ''profilePicture'' \<in> set sel then profilePicture u else None),
      headline = (if ''headline'' \<in> set sel then headline u else None)\<rparr>"

definition resolve :: "string list \<Rightarrow> user list \<Rightarrow> oid \<Rightarrow> user option" where
  "resolve sel us i = map_option (select sel) (find (\<lambda>u. u_id u = i) us)"

definition populate_author ::
  "string list \<Rightarrow> user list \<Rightarrow> (oid, 'c) post \<Rightarrow> (user option, 'c) post" where
  "populate_author sel us p =
     \<lparr>p_id = p_id p, author = resolve sel us (author p), content = content p,
      image' = image' p, sentiment = sentiment p, likes = likes p,
      comments = comments p, createdAt = createdAt p\<rparr>"

definition populate_comments_user ::
  "string list \<Rightarrow> user list \<Rightarrow> ('a, oid) post \<Rightarrow> ('a, user option) post" where
  "populate_comments_user sel us p =
     \<lparr>p_id = p_id p, author = author p, content = content p,
      image' = image' p, sentiment = sentiment p, likes = likes p,
      comments = map (\<lambda>c. \<lparr>user = resolve sel us (user c), c_content = c_content c\<rparr>)
                     (comments p),
      createdAt = createdAt p\<rparr>"

text \<open>
  The asset store holds assets under their public identifiers. The identifier of an asset
  is read off its URL: \<^verbatim>\<open>url.split("/").pop().split(".")[0]\<close>.
\<close>

definition public_id :: "string \<Rightarrow> string" where
  "public_id url =
     takeWhile (\<lambda>c. c \<noteq> CHR ''.'') (rev (takeWhile (\<lambda>c. c \<noteq> CHR ''/'') (rev url)))"

definition upload :: "env \<Rightarrow> string option \<Rightarrow> state \<Rightarrow> state \<times> (exn + string)" where
  "upload env payload st =
     (case upload_reply env of
        None \<Rightarrow> (st, Inl UpstreamError)
      | Some url \<Rightarrow> (st\<lparr>assets := assets st @ [public_id url]\<rparr>, Inr url))"

definition destroy :: "env \<Rightarrow> string \<Rightarrow> state \<Rightarrow> state \<times> (exn + unit)" where
  "destroy env pubid st =
     (if destroy_ok env
      then (st\<lparr>assets := removeAll pubid (assets st)\<rparr>, Inr ())
      else (st, Inl UpstreamError))"

definition sendCommentNotificationEmail ::
  "env \<Rightarrow> string option \<Rightarrow> string option \<Rightarrow> string \<Rightarrow> string \<Rightarrow> string \<Rightarrow> state
   \<Rightarrow> state \<times> (exn + unit)" where
  "sendCommentNotificationEmail env to toName fromName postUrl text st =
     (if email_ok env
      then (st\<lparr>outbox := outbox st @
                 [\<lparr>m_to = to, m_toName = toName, m_fromName = fromName,
                   m_postUrl = postUrl, m_text = text\<rparr>]\<rparr>, Inr ())
      else (st, Inl UpstreamError))"

section \<open>The feed listings\<close>

definition populate_feed :: "user list \<Rightarrow> stored_post \<Rightarrow> (user option, user option) post" where
  "populate_feed us p =
     populate_comments_user [''name'', ''profilePicture''] us
       (populate_author [''name'', ''username'', ''profilePicture'', ''headline''] us p)"

definition getPublicPosts_try :: "env \<Rightarrow> request \<Rightarrow> state \<Rightarrow> state \<times> (exn + response)" where
  "getPublicPosts_try env req st =
     (case find_posts env (\<lambda>p. True) st of
        Inl e \<Rightarrow> (st, Inl e)
      | Inr found \<Rightarrow>
          (let filteredPosts =
                 filter (\<lambda>p. author p \<noteq> None) (map (populate_feed (users st)) found)
           in (st, Inr (Resp 200 (JList filteredPosts)))))"

definition getPublicPosts :: "env \<Rightarrow> request \<Rightarrow> state \<Rightarrow> state \<times> response" where
  "getPublicPosts env req st =
     (case getPublicPosts_try env req st of
        (st1, Inr r) \<Rightarrow> (st1, r)
      | (st1, Inl e) \<Rightarrow>
          (log ''Error in getPublicPosts controller:'' st1,
           Resp 500 (JMsg ''message'' ''Server error'')))"

definition getPersonalizedExploreFeed_try ::
  "env \<Rightarrow> request \<Rightarrow> state \<Rightarrow> state \<times> (exn + response)" where
  "getPersonalizedExploreFeed_try env req st =
     (case find_posts env (\<lambda>p. True) st of
        Inl e \<Rightarrow> (st, Inl e)
      | Inr found \<Rightarrow>
          (let filteredPosts =
                 filter (\<lambda>p. author p \<noteq> None) (map (populate_feed (users st)) found)
           in (log ''personalized posts'' st, Inr (Resp 200 (JList filteredPosts)))))"

definition getPersonalizedExploreFeed :: "env \<Rightarrow> request \<Rightarrow> state \<Rightarrow> state \<times> response" where
  "getPersonalizedExploreFeed env req st =
     (case getPersonalizedExploreFeed_try env req st of
        (st1, Inr r) \<Rightarrow> (st1, r)
      | (st1, Inl e) \<Rightarrow>
          (log ''Error in getPersonalizedExploreFeed controller:'' st1,
           Resp 500 (JMsg ''message'' ''Server error'')))"

definition getNetworkPosts_try :: "env \<Rightarrow> request \<Rightarrow> state \<Rightarrow> state \<times> (exn + response)" where
  "getNetworkPosts_try env req st =
     (case find_posts env (\<lambda>p. author p \<in> set (connections req @ [actor req])) st of
        Inl e \<Rightarrow> (st, Inl e)
      | Inr found \<Rightarrow>
          (let filteredPosts =
                 filter (\<lambda>p. author p \<noteq> None) (map (populate_feed (users st)) found)
           in (log ''network posts'' st, Inr (Resp 200 (JList filteredPosts)))))"

definition getNetworkPosts :: "env \<Rightarrow> request \<Rightarrow> state \<Rightarrow> state \<times> response" where
  "getNetworkPosts env req st =
     (case getNetworkPosts_try env req st of
        (st1, Inr r) \<Rightarrow> (st1, r)
      | (st1, Inl e) \<Rightarrow>
          (log ''Error in getNetworkPosts controller:'' st1,
           Resp 500 (JMsg ''message'' ''Server error'')))"

section \<open>createPost\<close>

text \<open>
  Modelled from the spec: the schema \<^verbatim>\<open>models/post.model.js\<close> is not among the
  sources. \<^verbatim>\<open>new Post({author, content, image, sentiment})\<close> gives the document the
  fields passed, a new identifier, no likes, no comments and its creation time.
\<close>

definition new_Post ::
  "env \<Rightarrow> oid \<Rightarrow> string \<Rightarrow> string option \<Rightarrow> string option \<Rightarrow> stored_post" where
  "new_Post env a c img s =
     \<lparr>p_id = new_id env, author = a, content = c, image' = img, sentiment = s,
      likes = [], comments = [], createdAt = now env\<rparr>"

text \<open>
  The inner \<^verbatim>\<open>try\<close> around the sentiment request: a rejection leaves null. The
  result is \<open>None\<close> when the awaited promise never settles.
\<close>

definition analyse_sentiment ::
  "env \<Rightarrow> string \<Rightarrow> state \<Rightarrow> (state \<times> string option) option" where
  "analyse_sentiment env text st =
     (if sentiment_settles env
      then
        Some (case sentiment_reply env of
                Some d \<Rightarrow> (log ''Sentiment analysis result:'' st, Some d)
              | None \<Rightarrow>
                  (log ''Sentiment analysis server unavailable, skipping sentiment analysis.''
                     st,
                   None))
      else None)"

definition createPost_try :: "env \<Rightarrow> request \<Rightarrow> state \<Rightarrow> state \<times> (exn + response)" where
  "createPost_try env req st =
     (let content = body_content req; image = body_image req in
      case analyse_sentiment env content st of
        None \<Rightarrow> (st, Inr Pending)
      | Some (st1, sentimentResult) \<Rightarrow>
          (case (if truthy (js_of_opt image)
                 then (case upload env image st1 of
                         (st2, Inl e) \<Rightarrow> (st2, Inl e)
                       | (st2, Inr secure_url) \<Rightarrow>
                           (st2, Inr (new_Post env (actor req) content (Some secure_url)
                                        sentimentResult)))
                 else (st1, Inr (new_Post env (actor req) content None sentimentResult))) of
             (st2, Inl e) \<Rightarrow> (st2, Inl e)
           | (st2, Inr newPost) \<Rightarrow>
               (case insert_post env newPost st2 of
                  (st3, Inl e) \<Rightarrow> (st3, Inl e)
                | (st3, Inr _) \<Rightarrow> (st3, Inr (Resp 201 (JPost newPost))))))"

definition createPost :: "env \<Rightarrow> request \<Rightarrow> state \<Rightarrow> state \<times> response" where
  "createPost env req st =
     (case createPost_try env req st of
        (st1, Inr r) \<Rightarrow> (st1, r)
      | (st1, Inl e) \<Rightarrow>
          (log ''Error in createPost controller:'' st1,
           Resp 500 (JMsg ''message'' ''Server error'')))"

section \<open>deletePost\<close>

definition deletePost_try :: "env \<Rightarrow> request \<Rightarrow> state \<Rightarrow> state \<times> (exn + response)" where
  "deletePost_try env req st =
     (let postId = param_id req; userId = actor req in
      case findById env postId st of
        Inl e \<Rightarrow> (st, Inl e)
      | Inr None \<Rightarrow> (st, Inr (Resp 404 (JMsg ''message'' ''Post not found'')))
      | Inr (Some doc) \<Rightarrow>
          if strict_neq (JString (author doc)) (JString userId)
          then (st, Inr (Resp 403
                  (JMsg ''message'' ''You are not authorized to delete this post'')))
          else
            (case (case image' doc of
                     None \<Rightarrow> (st, Inr ())
                   | Some url \<Rightarrow>
                       if truthy (JString url) then destroy env (public_id url) st
                       else (st, Inr ())) of
               (st1, Inl e) \<Rightarrow> (st1, Inl e)
             | (st1, Inr _) \<Rightarrow>
                 (case findByIdAndDelete env postId st1 of
                    (st2, Inl e) \<Rightarrow> (st2, Inl e)
                  | (st2, Inr _) \<Rightarrow>
                      (st2, Inr (Resp 200 (JMsg ''message'' ''Post deleted successfully''))))))"

text \<open>The first \<^verbatim>\<open>console.log\<close> is outside the \<^verbatim>\<open>try\<close>.\<close>

definition deletePost :: "env \<Rightarrow> request \<Rightarrow> state \<Rightarrow> state \<times> response" where
  "deletePost env req st =
     (case deletePost_try env req (log ''delete post has been called!'' st) of
        (st1, Inr r) \<Rightarrow> (st1, r)
      | (st1, Inl e) \<Rightarrow>
          (log ''Error in delete post controller'' st1,
           Resp 500 (JMsg ''message'' ''Server error'')))"

section \<open>getPostById\<close>

definition populate_detail :: "user list \<Rightarrow> stored_post \<Rightarrow> (user option, user option) post" where
  "populate_detail us p =
     populate_comments_user [''name'', ''profilePicture'', ''username'', ''headline''] us
       (populate_author [''name'', ''username'', ''profilePicture'', ''headline''] us p)"

definition getPostById_try :: "env \<Rightarrow> request \<Rightarrow> state \<Rightarrow> state \<times> (exn + response)" where
  "getPostById_try env req st =
     (let postId = param_id req in
      case findById env postId st of
        Inl e \<Rightarrow> (st, Inl e)
      | Inr found \<Rightarrow>
          (st, Inr (Resp 200
                 (case map_option (populate_detail (users st)) found of
                    None \<Rightarrow> JNull
                  | Some doc \<Rightarrow> JPostFull doc))))"

text \<open>The key of the error body is spelt \<^verbatim>\<open>messsage\<close> in this handler.\<close>

definition getPostById :: "env \<Rightarrow> request \<Rightarrow> state \<Rightarrow> state \<times> response" where
  "getPostById env req st =
     (case getPostById_try env req st of
        (st1, Inr r) \<Rightarrow> (st1, r)
      | (st1, Inl e) \<Rightarrow>
          (log ''Error in getPostById controller:'' st1,
           Resp 500 (JMsg ''messsage'' ''Server error'')))"

section \<open>createComment\<close>

text \<open>
  After the update the post is null when no post has the identifier, and then
  \<^verbatim>\<open>post.author\<close> throws; \<^verbatim>\<open>post.author._id\<close> throws when the author does not resolve.
\<close>

definition createComment_try :: "env \<Rightarrow> request \<Rightarrow> state \<Rightarrow> state \<times> (exn + response)" where
  "createComment_try env req st =
     (let postId = param_id req; content = body_content req in
      case findByIdAndUpdate_push env postId \<lparr>user = actor req, c_content = content\<rparr> st of
        (st1, Inl e) \<Rightarrow> (st1, Inl e)
      | (st1, Inr None) \<Rightarrow> (st1, Inl TypeError)
      | (st1, Inr (Some updated)) \<Rightarrow>
          (let doc = populate_author
                       [''name'', ''email'', ''username'', ''headline'', ''profilePicture'']
                       (users st1) updated in
           case author doc of
             None \<Rightarrow> (st1, Inl TypeError)
           | Some au \<Rightarrow>
               if strict_neq (JString (u_id au)) (JString (actor req))
               then
                 (case save_notification env
                         \<lparr>recipient = u_id au, ntype = Comment,
                          relatedUser = actor req, relatedPost = postId\<rparr> st1 of
                    (st2, Inl e) \<Rightarrow> (st2, Inl e)
                  | (st2, Inr _) \<Rightarrow>
                      (let postUrl = client_url env @ ''/post/'' @ postId in
                       case sendCommentNotificationEmail env (email au) (name au)
                              (actor_name req) postUrl content st2 of
                         (st3, Inl e) \<Rightarrow>
                           (log ''Error in sending comment notification email:'' st3,
                            Inr (Resp 200 (JPostAuthor doc)))
                       | (st3, Inr _) \<Rightarrow> (st3, Inr (Resp 200 (JPostAuthor doc)))))
               else (st1, Inr (Resp 200 (JPostAuthor doc)))))"

text \<open>
  The \<^verbatim>\<open>catch\<close> block reads \<^verbatim>\<open>errors\<close>, which is declared nowhere (the parameter is
  \<^verbatim>\<open>error\<close>): evaluating the arguments of its \<^verbatim>\<open>console.error\<close> call throws a
  ReferenceError, so nothing is logged, \<^verbatim>\<open>res.status(500)\<close> is not reached and the
  handler's promise rejects.
\<close>

definition createComment :: "env \<Rightarrow> request \<Rightarrow> state \<Rightarrow> state \<times> response" where
  "createComment env req st =
     (case createComment_try env req st of
        (st1, Inr r) \<Rightarrow> (st1, r)
      | (st1, Inl e) \<Rightarrow> (st1, Unhandled ReferenceError))"

section \<open>likePost\<close>

text \<open>
  The callback of the unlike branch, \<^verbatim>\<open>id => { id.toString() !== userId.toString() }\<close>:
  its body is a block without \<^verbatim>\<open>return\<close>, so the comparison is evaluated and dropped
  and the callback returns \<^verbatim>\<open>undefined\<close>.
\<close>

definition unlike_callback :: "oid \<Rightarrow> oid \<Rightarrow> jsval" where
  "unlike_callback userId i = JUndefined"

text \<open>
  The branch on \<^verbatim>\<open>post.likes.includes(userId)\<close>. In the like branch the guard of the
  notification is \<^verbatim>\<open>post.author.toString() !== userId.toString\<close>: the right operand is
  the method itself, not its result.
\<close>

definition likePost_toggle ::
  "env \<Rightarrow> oid \<Rightarrow> oid \<Rightarrow> stored_post \<Rightarrow> state \<Rightarrow> state \<times> (exn + stored_post)" where
  "likePost_toggle env postId userId doc st =
     (if userId \<in> set (likes doc)
      then (st, Inr (doc\<lparr>likes := filter (\<lambda>i. truthy (unlike_callback userId i)) (likes doc)\<rparr>))
      else
        (let doc1 = doc\<lparr>likes := likes doc @ [userId]\<rparr> in
         if strict_neq (JString (author doc1)) JFunction
         then
           (case save_notification env
                   \<lparr>recipient = author doc1, ntype = Like,
                    relatedUser = userId, relatedPost = postId\<rparr> st of
              (st1, Inl e) \<Rightarrow> (st1, Inl e)
            | (st1, Inr _) \<Rightarrow> (st1, Inr doc1))
         else (st, Inr doc1)))"

definition likePost_try :: "env \<Rightarrow> request \<Rightarrow> state \<Rightarrow> state \<times> (exn + response)" where
  "likePost_try env req st =
     (let postId = param_id req in
      case findById env postId st of
        Inl e \<Rightarrow> (st, Inl e)
      | Inr None \<Rightarrow> (st, Inl TypeError)
      | Inr (Some doc) \<Rightarrow>
          (let userId = actor req in
           case likePost_toggle env postId userId doc st of
             (st1, Inl e) \<Rightarrow> (st1, Inl e)
           | (st1, Inr doc1) \<Rightarrow>
               (case save_post env doc1 st1 of
                  (st2, Inl e) \<Rightarrow> (st2, Inl e)
                | (st2, Inr _) \<Rightarrow> (st2, Inr (Resp 200 (JPost doc1))))))"

definition likePost :: "env \<Rightarrow> request \<Rightarrow> state \<Rightarrow> state \<times> response" where
  "likePost env req st =
     (case likePost_try env req st of
        (st1, Inr r) \<Rightarrow> (st1, r)
      | (st1, Inl e) \<Rightarrow>
          (log ''Error in likePost controller'' st1, Resp 500 (JMsg ''message'' ''Server error'')))"

section \<open>Concrete stores and requests\<close>

definition env_ok :: env where
  "env_ok =
     \<lparr>find_ok = True, update_ok = True, remove_ok = True, post_save_ok = True,
      notification_save_ok = True, sentiment_settles = True,
      sentiment_reply = Some ''positive'',
      upload_reply = Some ''https://cdn.example/img/abc.png'', destroy_ok = True,
      email_ok = True, new_id = ''p2'', now = 2, client_url = ''http://localhost:5173''\<rparr>"

definition user_A :: user where
  "user_A =
     \<lparr>u_id = ''A'', name = Some ''Ann'', username = Some ''ann'',
      email = Some ''ann@example.org'', profilePicture = None, headline = None\<rparr>"

definition post_p1 :: stored_post where
  "post_p1 =
     \<lparr>p_id = ''p1'', author = ''A'', content = ''hello'', image' = None,
      sentiment = None, likes = [], comments = [], createdAt = 1\<rparr>"

text \<open>A post whose author \<open>Z\<close> is not among the users.\<close>

definition post_p0 :: stored_post where
  "post_p0 =
     \<lparr>p_id = ''p0'', author = ''Z'', content = ''old'', image' = None,
      sentiment = None, likes = [], comments = [], createdAt = 0\<rparr>"

definition st_p1 :: state where
  "st_p1 =
     \<lparr>users = [user_A], posts = [post_p1], notifications = [], assets = [],
      outbox = [], console = []\<rparr>"

text \<open>The same store with an image on the post and the asset in the asset store.\<close>

definition st_img :: state where
  "st_img =
     \<lparr>users = [user_A],
      posts = [post_p1\<lparr>image' := Some ''https://cdn.example/img/abc.png''\<rparr>],
      notifications = [], assets = [''abc''], outbox = [], console = []\<rparr>"

definition req_by :: "oid \<Rightarrow> oid \<Rightarrow> request" where
  "req_by a i =
     \<lparr>actor = a, actor_name = a, connections = [], param_id = i,
      body_content = ''nice'', body_image = None\<rparr>"

definition status_of :: "response \<Rightarrow> nat option" where
  "status_of r =
     (case r of Resp n b \<Rightarrow> Some n | Unhandled e \<Rightarrow> None | Pending \<Rightarrow> None)"

definition feed_items :: "response \<Rightarrow> (user option, user option) post list" where
  "feed_items r = (case r of Resp n (JList ps) \<Rightarrow> ps | _ \<Rightarrow> [])"

lemmas fixture_defs = env_ok_def user_A_def post_p1_def post_p0_def st_p1_def st_img_def
  req_by_def

lemmas store_defs = findById_def save_post_def save_notification_def insert_post_def
  findByIdAndUpdate_push_def findByIdAndDelete_def find_posts_def upload_def destroy_def
  sendCommentNotificationEmail_def log_def

lemmas populate_defs = select_def resolve_def populate_author_def populate_comments_user_def
  populate_feed_def populate_detail_def

lemmas likePost_defs = likePost_def likePost_try_def likePost_toggle_def unlike_callback_def
  strict_neq_def Let_def

lemmas createComment_defs = createComment_def createComment_try_def strict_neq_def Let_def

lemmas deletePost_defs = deletePost_def deletePost_try_def public_id_def strict_neq_def Let_def

lemmas createPost_defs = createPost_def createPost_try_def analyse_sentiment_def new_Post_def
  js_of_opt_def Let_def

section \<open>Toggling a like\<close>

text \<open>
  What one call of \<open>likePost\<close> does when every awaited call resolves. An actor who has
  not liked the post is appended to its likes and a notification is written, whoever the
  actor is: the guard compares a string with a function and is always true.
\<close>

lemma likePost_like:
  assumes "find_ok env" and "notification_save_ok env" and "post_save_ok env"
    and "find (\<lambda>p. p_id p = param_id req) (posts st) = Some doc"
    and "actor req \<notin> set (likes doc)"
  shows "notifications (fst (likePost env req st)) =
           notifications st @
             [\<lparr>recipient = author doc, ntype = Like, relatedUser = actor req,
               relatedPost = param_id req\<rparr>]"
    and "snd (likePost env req st) = Resp 200 (JPost (doc\<lparr>likes := likes doc @ [actor req]\<rparr>))"
  using assms by (simp_all add: likePost_defs store_defs)

text \<open>
  An actor who has liked the post empties its likes: the callback of the filter returns
  \<^verbatim>\<open>undefined\<close> for every element.
\<close>

lemma likePost_unlike:
  assumes "find_ok env" and "post_save_ok env"
    and "find (\<lambda>p. p_id p = param_id req) (posts st) = Some doc"
    and "actor req \<in> set (likes doc)"
  shows "notifications (fst (likePost env req st)) = notifications st"
    and "snd (likePost env req st) = Resp 200 (JPost (doc\<lparr>likes := []\<rparr>))"
  using assms by (simp_all add: likePost_defs store_defs)

text \<open>
  C1. Toggling a like twice by the same actor returns the likes of the post to their
  original membership and creates one notification only if the actor is not the author.
  Evaluated on the code: the author \<open>A\<close> toggling twice on her own post with no likes
  leaves one notification from \<open>A\<close> to \<open>A\<close>; and \<open>C\<close> toggling twice on a post liked by
  \<open>B\<close> leaves the post with no likes at all.
\<close>

theorem likePost_twice_evaluated:
  "notifications (fst (likePost env_ok (req_by ''A'' ''p1'')
       (fst (likePost env_ok (req_by ''A'' ''p1'') st_p1)))) =
     [\<lparr>recipient = ''A'', ntype = Like, relatedUser = ''A'', relatedPost = ''p1''\<rparr>]
   \<and> map likes (posts (fst (likePost env_ok (req_by ''C'' ''p1'')
       (fst (likePost env_ok (req_by ''C'' ''p1'')
          (st_p1\<lparr>posts := [post_p1\<lparr>likes := [''B'']\<rparr>]\<rparr>)))))) = [[]]"
  by (simp add: likePost_defs store_defs fixture_defs)

section \<open>Notifications of one's own actions\<close>

text \<open>
  In \<open>createComment\<close> the guard compares two strings, and every notification it adds has
  a recipient other than the commenter.
\<close>

lemma createComment_notifications:
  "notifications (fst (createComment env req st)) = notifications st \<or>
   (\<exists>n. notifications (fst (createComment env req st)) = notifications st @ [n] \<and>
        relatedUser n \<noteq> recipient n)"
  by (auto simp: createComment_defs store_defs populate_defs
           split: option.splits if_splits)

text \<open>
  C2. No notification is created whose related user is its recipient, in comment creation
  and in like toggling. Evaluated on the code: the author \<open>A\<close> liking her own post gets a
  notification from herself.
\<close>

theorem likePost_own_post_evaluated:
  "likePost env_ok (req_by ''A'' ''p1'') st_p1 =
     (st_p1\<lparr>posts := [post_p1\<lparr>likes := [''A'']\<rparr>],
            notifications :=
              [\<lparr>recipient = ''A'', ntype = Like, relatedUser = ''A'',
                relatedPost = ''p1''\<rparr>]\<rparr>,
      Resp 200 (JPost (post_p1\<lparr>likes := [''A'']\<rparr>)))"
  by (simp add: likePost_defs store_defs fixture_defs)

section \<open>Deleting a post\<close>

text \<open>
  C3, as stated: deleting one's own post with an image removes the record and answers
  with success even when the deletion of the asset fails. On the code the failure reaches
  the \<^verbatim>\<open>catch\<close> of the handler: the answer is 500 and the record stays.
\<close>

theorem deletePost_destroy_failure_counterexample:
  "snd (deletePost (env_ok\<lparr>destroy_ok := False\<rparr>) (req_by ''A'' ''p1'') st_img) =
     Resp 500 (JMsg ''message'' ''Server error'')
   \<and> posts (fst (deletePost (env_ok\<lparr>destroy_ok := False\<rparr>) (req_by ''A'' ''p1'') st_img)) =
       posts st_img"
  by (simp add: deletePost_defs store_defs fixture_defs)

text \<open>
  C3, amended: for a post of the requesting actor that has an image, the handler removes
  the asset and the record and answers 200 when the deletion of the asset and of the
  record succeed; when the deletion of the asset fails, the failure is logged, the
  answer is 500 and the record and the asset stay.
\<close>

theorem deletePost_own_post_with_image:
  assumes "find_ok env"
    and "find (\<lambda>p. p_id p = param_id req) (posts st) = Some doc"
    and "author doc = actor req"
    and "image' doc = Some url" and "url \<noteq> []"
  shows "(destroy_ok env \<and> remove_ok env \<longrightarrow>
            deletePost env req st =
              (st\<lparr>posts := filter (\<lambda>p. p_id p \<noteq> param_id req) (posts st),
                  assets := removeAll (public_id url) (assets st),
                  console := console st @ [''delete post has been called!'']\<rparr>,
               Resp 200 (JMsg ''message'' ''Post deleted successfully'')))
       \<and> (\<not> destroy_ok env \<longrightarrow>
            deletePost env req st =
              (st\<lparr>console := console st @
                    [''delete post has been called!'', ''Error in delete post controller'']\<rparr>,
               Resp 500 (JMsg ''message'' ''Server error'')))"
  using assms by (simp add: deletePost_def deletePost_try_def strict_neq_def Let_def store_defs)

theorem deletePost_own_post_with_image_witness:
  "deletePost env_ok (req_by ''A'' ''p1'') st_img =
     (st_img\<lparr>posts := [], assets := [], console := [''delete post has been called!'']\<rparr>,
      Resp 200 (JMsg ''message'' ''Post deleted successfully''))
   \<and> deletePost (env_ok\<lparr>destroy_ok := False\<rparr>) (req_by ''A'' ''p1'') st_img =
     (st_img\<lparr>console :=
         [''delete post has been called!'', ''Error in delete post controller'']\<rparr>,
      Resp 500 (JMsg ''message'' ''Server error''))"
  using deletePost_own_post_with_image
          [of env_ok "req_by ''A'' ''p1''" st_img
              "post_p1\<lparr>image' := Some ''https://cdn.example/img/abc.png''\<rparr>"
              "''https://cdn.example/img/abc.png''"]
        deletePost_own_post_with_image
          [of "env_ok\<lparr>destroy_ok := False\<rparr>" "req_by ''A'' ''p1''" st_img
              "post_p1\<lparr>image' := Some ''https://cdn.example/img/abc.png''\<rparr>"
              "''https://cdn.example/img/abc.png''"]
  by (simp add: fixture_defs public_id_def)

text \<open>
  C8. A request to delete a post by an actor who is not its author is answered with 403
  and changes neither the posts nor the assets: the check of the author comes before both
  deletions. Whatever the database does on the first read, the posts and the assets of
  such a request stay as they are.
\<close>

theorem deletePost_forbidden:
  assumes "find (\<lambda>p. p_id p = param_id req) (posts st) = Some doc"
    and "author doc \<noteq> actor req"
  shows "(find_ok env \<longrightarrow>
            deletePost env req st =
              (st\<lparr>console := console st @ [''delete post has been called!'']\<rparr>,
               Resp 403 (JMsg ''message'' ''You are not authorized to delete this post'')))
       \<and> posts (fst (deletePost env req st)) = posts st
       \<and> assets (fst (deletePost env req st)) = assets st
       \<and> notifications (fst (deletePost env req st)) = notifications st"
  using assms by (simp add: deletePost_def deletePost_try_def strict_neq_def Let_def store_defs)

theorem deletePost_forbidden_witness:
  "find (\<lambda>p. p_id p = param_id (req_by ''B'' ''p1'')) (posts st_img) =
     Some (post_p1\<lparr>image' := Some ''https://cdn.example/img/abc.png''\<rparr>)
   \<and> author (post_p1\<lparr>image' := Some ''https://cdn.example/img/abc.png''\<rparr>) \<noteq>
       actor (req_by ''B'' ''p1'')
   \<and> deletePost env_ok (req_by ''B'' ''p1'') st_img =
       (st_img\<lparr>console := [''delete post has been called!'']\<rparr>,
        Resp 403 (JMsg ''message'' ''You are not authorized to delete this post''))
   \<and> assets (fst (deletePost env_ok (req_by ''B'' ''p1'') st_img)) = [''abc'']"
  using deletePost_forbidden
          [of "req_by ''B'' ''p1''" st_img
              "post_p1\<lparr>image' := Some ''https://cdn.example/img/abc.png''\<rparr>" env_ok]
  by (simp add: fixture_defs)

section \<open>Reading and commenting on a post that does not exist\<close>

text \<open>
  With no post under the identifier, \<open>createComment\<close> appends nothing and throws on
  \<^verbatim>\<open>post.author\<close>; its \<^verbatim>\<open>catch\<close> block throws in turn, so no response is sent.
\<close>

lemma createComment_absent_post:
  assumes "update_ok env" and "find (\<lambda>p. p_id p = param_id req) (posts st) = None"
  shows "createComment env req st = (st, Unhandled ReferenceError)"
  using assms by (simp add: createComment_defs store_defs)

text \<open>
  C4. A request to comment on a post identifier that does not exist fails with a 404
  response and appends no comment. Evaluated on the code: no comment is appended, and no
  404 is sent; the handler ends in the ReferenceError of its \<^verbatim>\<open>catch\<close> block.
\<close>

theorem createComment_absent_post_evaluated:
  "createComment env_ok (req_by ''B'' ''p7'') st_p1 = (st_p1, Unhandled ReferenceError)"
  by (simp add: createComment_defs store_defs fixture_defs)

text \<open>With no post under the identifier, \<open>getPostById\<close> answers 200 with null.\<close>

lemma getPostById_absent_post:
  assumes "find_ok env" and "find (\<lambda>p. p_id p = param_id req) (posts st) = None"
  shows "getPostById env req st = (st, Resp 200 JNull)"
  using assms by (simp add: getPostById_def getPostById_try_def Let_def store_defs)

lemma getPostById_present_post:
  assumes "find_ok env" and "find (\<lambda>p. p_id p = param_id req) (posts st) = Some doc"
  shows "getPostById env req st = (st, Resp 200 (JPostFull (populate_detail (users st) doc)))"
  using assms by (simp add: getPostById_def getPostById_try_def Let_def store_defs)

text \<open>
  C5. Reading a post by identifier returns the populated post when it exists and a
  not-found outcome when it does not, never a success carrying no post. Evaluated on the
  code: for an identifier with no post the answer is 200 with a null body.
\<close>

theorem getPostById_absent_post_evaluated:
  "getPostById env_ok (req_by ''B'' ''p7'') st_p1 = (st_p1, Resp 200 JNull)"
  by (simp add: getPostById_def getPostById_try_def Let_def store_defs fixture_defs)

section \<open>Creating a post\<close>



text \<open>
  C7, as stated: when the sentiment request fails for any reason, a timeout included,
  creating the post still succeeds and the post has no sentiment. On the code the request
  is made without a timeout: with a service that never answers, the handler waits for
  ever, no post is created and no response is sent.
\<close>

theorem createPost_sentiment_no_answer_counterexample:
  "createPost (env_ok\<lparr>sentiment_settles := False\<rparr>) (req_by ''A'' '''') st_p1 =
     (st_p1, Pending)"
  by (simp add: createPost_defs fixture_defs)

text \<open>
  C7, amended: when the sentiment request is rejected (a transport error, a non-success
  status, an absent configuration, or a timeout that the transport reports), the
  rejection is not propagated: it never changes the status of the answer, and when the
  upload (for a request with an image) and the write of the record succeed, the answer is
  201 with a post without sentiment, which is the record added. The request carries no
  timeout of its own: when the service never answers, no post is created and no response
  is sent.
\<close>

theorem createPost_sentiment_failure:
  "status_of (snd (createPost (env\<lparr>sentiment_reply := None\<rparr>) req st)) =
     status_of (snd (createPost env req st))
   \<and> (sentiment_settles env \<and> sentiment_reply env = None \<and> post_save_ok env
        \<and> (truthy (js_of_opt (body_image req)) \<longrightarrow> upload_reply env \<noteq> None) \<longrightarrow>
      (\<exists>doc. snd (createPost env req st) = Resp 201 (JPost doc)
         \<and> sentiment doc = None
         \<and> posts (fst (createPost env req st)) = posts st @ [doc]))
   \<and> (\<not> sentiment_settles env \<longrightarrow> createPost env req st = (st, Pending))"
  by (auto simp: createPost_def createPost_try_def analyse_sentiment_def new_Post_def Let_def
                 status_of_def store_defs
           split: option.splits)

theorem createPost_sentiment_failure_witness:
  "sentiment_settles (env_ok\<lparr>sentiment_reply := None\<rparr>)
   \<and> sentiment_reply (env_ok\<lparr>sentiment_reply := None\<rparr>) = None
   \<and> post_save_ok (env_ok\<lparr>sentiment_reply := None\<rparr>)
   \<and> truthy (js_of_opt (body_image (req_by ''A'' ''''\<lparr>body_image := Some ''data:image/png''\<rparr>)))
   \<and> upload_reply (env_ok\<lparr>sentiment_reply := None\<rparr>) \<noteq> None
   \<and> createPost (env_ok\<lparr>sentiment_reply := None\<rparr>)
        (req_by ''A'' ''''\<lparr>body_image := Some ''data:image/png''\<rparr>) st_p1 =
       (st_p1\<lparr>posts :=
                [post_p1,
                 post_p1\<lparr>p_id := ''p2'', content := ''nice'',
                         image' := Some ''https://cdn.example/img/abc.png'',
                         createdAt := 2\<rparr>],
              assets := [''abc''],
              console :=
                [''Sentiment analysis server unavailable, skipping sentiment analysis.'']\<rparr>,
        Resp 201
          (JPost (post_p1\<lparr>p_id := ''p2'', content := ''nice'',
                          image' := Some ''https://cdn.example/img/abc.png'',
                          createdAt := 2\<rparr>)))
   \<and> status_of (snd (createPost env_ok
        (req_by ''A'' ''''\<lparr>body_image := Some ''data:image/png''\<rparr>) st_p1)) = Some 201
   \<and> createPost (env_ok\<lparr>sentiment_settles := False\<rparr>)
        (req_by ''A'' ''''\<lparr>body_image := Some ''data:image/png''\<rparr>) st_p1 = (st_p1, Pending)"
  using createPost_sentiment_failure
          [of env_ok "req_by ''A'' ''''\<lparr>body_image := Some ''data:image/png''\<rparr>" st_p1]
        createPost_sentiment_failure
          [of "env_ok\<lparr>sentiment_settles := False\<rparr>"
              "req_by ''A'' ''''\<lparr>body_image := Some ''data:image/png''\<rparr>" st_p1]
        createPost_sentiment_failure
          [of "env_ok\<lparr>sentiment_reply := None\<rparr>"
              "req_by ''A'' ''''\<lparr>body_image := Some ''data:image/png''\<rparr>" st_p1]
  by (simp add: createPost_defs store_defs fixture_defs status_of_def public_id_def)

section \<open>The feeds\<close>

lemma resolve_None: "resolve sel us i = None \<longleftrightarrow> find (\<lambda>u. u_id u = i) us = None"
  by (simp add: resolve_def)

lemma populate_feed_fields [simp]:
  "p_id (populate_feed us p) = p_id p"
  "author (populate_feed us p) =
     resolve [''name'', ''username'', ''profilePicture'', ''headline''] us (author p)"
  by (simp_all add: populate_feed_def populate_author_def populate_comments_user_def)

text \<open>
  What the three listings share: of the stored posts that the query selects, in any
  order, those whose populated author is not null.
\<close>

lemma filtered_feed:
  assumes "distinct (map p_id ps)" and "p \<in> set ps"
    and "find (\<lambda>u. u_id u = author p) us = None"
    and "set found \<subseteq> set ps"
    and "q \<in> set (filter (\<lambda>x. author x \<noteq> None) (map (populate_feed us) found))"
  shows "p_id q \<noteq> p_id p \<and> author q \<noteq> None"
proof -
  from assms(5) obtain p' where p': "p' \<in> set found" "q = populate_feed us p'"
    and res: "author q \<noteq> None"
    by auto
  have "p' \<noteq> p"
    using res p'(2) assms(3) by (auto simp: resolve_None)
  moreover have "p' \<in> set ps"
    using p'(1) assms(4) by blast
  ultimately have "p_id p' \<noteq> p_id p"
    using assms(1,2) by (meson distinct_map inj_onD)
  then show ?thesis
    using res p'(2) by simp
qed

lemma find_posts_subset: "find_posts env f st = Inr found \<Longrightarrow> set found \<subseteq> set (posts st)"
  by (auto simp: find_posts_def split: if_splits)

lemma feed_items_getPublicPosts:
  "q \<in> set (feed_items (snd (getPublicPosts env req st))) \<Longrightarrow>
     \<exists>found. set found \<subseteq> set (posts st) \<and>
       q \<in> set (filter (\<lambda>x. author x \<noteq> None) (map (populate_feed (users st)) found))"
  using find_posts_subset [of env "\<lambda>p. True" st]
  by (auto simp: getPublicPosts_def getPublicPosts_try_def feed_items_def Let_def
           split: sum.splits)

lemma feed_items_getPersonalizedExploreFeed:
  "q \<in> set (feed_items (snd (getPersonalizedExploreFeed env req st))) \<Longrightarrow>
     \<exists>found. set found \<subseteq> set (posts st) \<and>
       q \<in> set (filter (\<lambda>x. author x \<noteq> None) (map (populate_feed (users st)) found))"
  using find_posts_subset [of env "\<lambda>p. True" st]
  by (auto simp: getPersonalizedExploreFeed_def getPersonalizedExploreFeed_try_def
                 feed_items_def Let_def
           split: sum.splits)

lemma feed_items_getNetworkPosts:
  "q \<in> set (feed_items (snd (getNetworkPosts env req st))) \<Longrightarrow>
     \<exists>found. set found \<subseteq> set (posts st) \<and>
       q \<in> set (filter (\<lambda>x. author x \<noteq> None) (map (populate_feed (users st)) found))"
  using find_posts_subset [of env "\<lambda>p. author p \<in> set (connections req @ [actor req])" st]
  by (auto simp: getNetworkPosts_def getNetworkPosts_try_def feed_items_def Let_def
           split: sum.splits)

text \<open>When the query resolves, each listing answers 200 with the filtered list.\<close>

lemma getPublicPosts_found:
  assumes "find_ok env"
  shows "getPublicPosts env req st =
           (st, Resp 200 (JList (filter (\<lambda>x. author x \<noteq> None)
              (map (populate_feed (users st)) (sort_key (\<lambda>p. - createdAt p) (posts st))))))"
  using assms by (simp add: getPublicPosts_def getPublicPosts_try_def find_posts_def)

lemma getPersonalizedExploreFeed_found:
  assumes "find_ok env"
  shows "getPersonalizedExploreFeed env req st =
           (log ''personalized posts'' st,
            Resp 200 (JList (filter (\<lambda>x. author x \<noteq> None)
              (map (populate_feed (users st)) (sort_key (\<lambda>p. - createdAt p) (posts st))))))"
  using assms
  by (simp add: getPersonalizedExploreFeed_def getPersonalizedExploreFeed_try_def
                find_posts_def)

lemma getNetworkPosts_found:
  assumes "find_ok env"
  shows "getNetworkPosts env req st =
           (log ''network posts'' st,
            Resp 200 (JList (filter (\<lambda>x. author x \<noteq> None)
              (map (populate_feed (users st))
                 (sort_key (\<lambda>p. - createdAt p)
                    (filter (\<lambda>p. author p \<in> set (connections req @ [actor req]))
                       (posts st)))))))"
  using assms by (simp add: getNetworkPosts_def getNetworkPosts_try_def find_posts_def)

text \<open>
  C9. A stored post whose author does not resolve to a user is in the result of none of
  the three feed listings, rather than being surfaced as an error: when the query
  resolves, each listing answers 200 with the selected posts whose author resolves, by
  descending creation time; and every post that a listing returns has an author and is
  not the post whose author does not resolve.
\<close>

theorem feeds_exclude_unresolved_author:
  assumes "distinct (map p_id (posts st))" and "p \<in> set (posts st)"
    and "find (\<lambda>u. u_id u = author p) (users st) = None"
  shows "(find_ok env \<longrightarrow>
            snd (getPublicPosts env req st) =
              Resp 200 (JList (filter (\<lambda>x. author x \<noteq> None)
                (map (populate_feed (users st)) (sort_key (\<lambda>p. - createdAt p) (posts st)))))
            \<and> snd (getPersonalizedExploreFeed env req st) =
              Resp 200 (JList (filter (\<lambda>x. author x \<noteq> None)
                (map (populate_feed (users st)) (sort_key (\<lambda>p. - createdAt p) (posts st)))))
            \<and> snd (getNetworkPosts env req st) =
              Resp 200 (JList (filter (\<lambda>x. author x \<noteq> None)
                (map (populate_feed (users st))
                   (sort_key (\<lambda>p. - createdAt p)
                      (filter (\<lambda>p. author p \<in> set (connections req @ [actor req]))
                         (posts st)))))))
       \<and> (\<forall>h \<in> {getPublicPosts, getPersonalizedExploreFeed, getNetworkPosts}.
            \<forall>q \<in> set (feed_items (snd (h env req st))).
              p_id q \<noteq> p_id p \<and> author q \<noteq> None)"
proof -
  have excluded: "p_id q \<noteq> p_id p \<and> author q \<noteq> None"
    if h: "h \<in> {getPublicPosts, getPersonalizedExploreFeed, getNetworkPosts}"
      and q: "q \<in> set (feed_items (snd (h env req st)))" for h q
  proof -
    from h q obtain found where "set found \<subseteq> set (posts st)"
      and "q \<in> set (filter (\<lambda>x. author x \<noteq> None) (map (populate_feed (users st)) found))"
      using feed_items_getPublicPosts feed_items_getPersonalizedExploreFeed
        feed_items_getNetworkPosts by blast
    with assms show ?thesis
      by (rule filtered_feed)
  qed
  show ?thesis
    using excluded
    by (simp add: getPublicPosts_found getPersonalizedExploreFeed_found
                  getNetworkPosts_found)
qed

theorem feeds_exclude_unresolved_author_witness:
  "distinct (map p_id (posts (st_p1\<lparr>posts := [post_p0, post_p1]\<rparr>)))
   \<and> post_p0 \<in> set (posts (st_p1\<lparr>posts := [post_p0, post_p1]\<rparr>))
   \<and> find (\<lambda>u. u_id u = author post_p0) (users (st_p1\<lparr>posts := [post_p0, post_p1]\<rparr>)) = None
   \<and> find_ok env_ok
   \<and> status_of (snd (getPublicPosts env_ok (req_by ''A'' '''')
        (st_p1\<lparr>posts := [post_p0, post_p1]\<rparr>))) = Some 200
   \<and> status_of (snd (getPersonalizedExploreFeed env_ok (req_by ''A'' '''')
        (st_p1\<lparr>posts := [post_p0, post_p1]\<rparr>))) = Some 200
   \<and> status_of (snd (getNetworkPosts env_ok (req_by ''A'' ''''\<lparr>connections := [''Z'']\<rparr>)
        (st_p1\<lparr>posts := [post_p0, post_p1]\<rparr>))) = Some 200
   \<and> map p_id (feed_items (snd (getPublicPosts env_ok (req_by ''A'' '''')
        (st_p1\<lparr>posts := [post_p0, post_p1]\<rparr>)))) = [''p1'']
   \<and> map p_id (feed_items (snd (getPersonalizedExploreFeed env_ok (req_by ''A'' '''')
        (st_p1\<lparr>posts := [post_p0, post_p1]\<rparr>)))) = [''p1'']
   \<and> map p_id (feed_items (snd (getNetworkPosts env_ok
        (req_by ''A'' ''''\<lparr>connections := [''Z'']\<rparr>)
        (st_p1\<lparr>posts := [post_p0, post_p1]\<rparr>)))) = [''p1'']"
  using feeds_exclude_unresolved_author
          [of "st_p1\<lparr>posts := [post_p0, post_p1]\<rparr>" post_p0 env_ok "req_by ''A'' ''''"]
        feeds_exclude_unresolved_author
          [of "st_p1\<lparr>posts := [post_p0, post_p1]\<rparr>" post_p0 env_ok
              "req_by ''A'' ''''\<lparr>connections := [''Z'']\<rparr>"]
  by (simp add: fixture_defs getPublicPosts_def getPublicPosts_try_def
                getPersonalizedExploreFeed_def getPersonalizedExploreFeed_try_def
                getNetworkPosts_def getNetworkPosts_try_def find_posts_def
                feed_items_def status_of_def populate_defs Let_def)

section \<open>A comment whose notification cannot be written\<close>

text \<open>
  The comment is appended before the notification is written and nothing undoes it. When
  the actor is not the author and the write of the notification fails, the comment stays
  on the post and the handler ends in the ReferenceError of its \<^verbatim>\<open>catch\<close> block.
\<close>

lemma createComment_notification_failure:
  assumes "update_ok env" and "\<not> notification_save_ok env"
    and "find (\<lambda>p. p_id p = param_id req) (posts st) = Some doc"
    and "find (\<lambda>u. u_id u = author doc) (users st) = Some au"
    and "u_id au \<noteq> actor req"
  shows "createComment env req st =
           (st\<lparr>posts :=
                 map (\<lambda>p. if p_id p = param_id req
                          then doc\<lparr>comments := comments doc @
                                   [\<lparr>user = actor req, c_content = body_content req\<rparr>]\<rparr>
                          else p) (posts st)\<rparr>,
            Unhandled ReferenceError)"
  using assms by (simp add: createComment_defs store_defs populate_defs)

text \<open>
  C10. In comment creation the comment is committed before the notification is written,
  without rollback: when the write of the notification fails, the response is a server
  error and the comment stays on the post. Evaluated on the code: \<open>B\<close> comments on the
  post of \<open>A\<close> and the notification cannot be written; the comment stays, no notification
  exists, and no response is sent, the 500 of the \<^verbatim>\<open>catch\<close> block not being reached.
\<close>

theorem createComment_notification_failure_evaluated:
  "createComment (env_ok\<lparr>notification_save_ok := False\<rparr>) (req_by ''B'' ''p1'') st_p1 =
     (st_p1\<lparr>posts := [post_p1\<lparr>comments := [\<lparr>user = ''B'', c_content = ''nice''\<rparr>]\<rparr>]\<rparr>,
      Unhandled ReferenceError)"
  by (simp add: createComment_defs store_defs populate_defs fixture_defs)

end
